theory Spec2Isabelle
  imports Main "HOL-Library.Word"
begin

section \<open>The host link of the sensor-hub runtime (SLPI platform)\<close>

text \<open>
  The development follows the host link source (the FastRPC entry points
  \<^verbatim>\<open>chre_slpi_get_message_to_host\<close> and \<^verbatim>\<open>chre_slpi_deliver_message_from_host\<close>,
  \<^verbatim>\<open>HostLink::sendMessage\<close> and \<^verbatim>\<open>HostLinkBase::shutdown\<close>) and the header
  \<^verbatim>\<open>chre/core/wwan_request_manager.h\<close>.
\<close>

subsection \<open>Data\<close>

type_synonym byte = "8 word"

text \<open>
  \<^verbatim>\<open>MessageToHost\<close> is declared in \<^verbatim>\<open>chre/core/host_comms_manager.h\<close>; the host
  link reads one member of it, the payload \<^verbatim>\<open>message\<close> (a vector of bytes, of which
  it uses \<^verbatim>\<open>size()\<close> and \<^verbatim>\<open>data()\<close>). The record is extensible, so the other
  members live in its \<open>more\<close> part.
\<close>

record MessageToHost =
  message :: "byte list"

text \<open>
  A \<^verbatim>\<open>const MessageToHost *\<close> is an optional message: \<open>None\<close> is \<^verbatim>\<open>nullptr\<close>,
  the value pushed during shutdown.
\<close>

type_synonym MessageToHost_ptr = "MessageToHost option"

text \<open>
  Modelled from the spec: the status macros of \<^verbatim>\<open>chre/platform/slpi/fastrpc.h\<close>,
  which is not among the sources. The spec names three distinguished status values,
  SUCCESS, ERROR and SHUTTING_DOWN.
\<close>

datatype fastrpc_status =
  CHRE_FASTRPC_SUCCESS
| CHRE_FASTRPC_ERROR
| CHRE_FASTRPC_ERROR_SHUTTING_DOWN

text \<open>The levels of the \<^verbatim>\<open>FARF\<close> diagnostic macro that the host link uses.\<close>

datatype farf_level = MEDIUM | ERROR | FATAL

text \<open>
  What the host link does besides reading and writing the queue and the caller's
  memory is recorded, in order, as a list of events: a line written with \<^verbatim>\<open>FARF\<close>
  (level, format string, arguments), a line written with the regular log macro
  \<^verbatim>\<open>LOGD\<close>, a call of the completion hook \<^verbatim>\<open>onMessageToHostComplete\<close>, a call of
  \<^verbatim>\<open>qurt_timer_sleep\<close>. The log macros are not among the sources; of a line written
  the level, the format and the arguments are kept, and writing it changes nothing
  else. \<open>QueuePush\<close> and \<open>QueueEmpty\<close> are recorded by
  \<^verbatim>\<open>shutdown\<close> for each \<^verbatim>\<open>push(nullptr)\<close> and each \<^verbatim>\<open>empty()\<close> it evaluates, with
  the value returned, so that its attempts can be counted.
\<close>

datatype event =
  Farf farf_level string "int list"
| Logd string "int list"
| MessageToHostComplete MessageToHost
| TimerSleep nat
| QueuePush bool
| QueueEmpty bool

definition kOutboundQueueSize :: nat where
  "kOutboundQueueSize = 32"

definition INT_MAX :: nat where
  "INT_MAX = 2147483647"

subsection \<open>The fixed-size blocking queue\<close>

text \<open>
  Modelled from the spec: \<^verbatim>\<open>FixedSizeBlockingQueue\<close>
  (\<^verbatim>\<open>chre/util/fixed_size_blocking_queue.h\<close>) is not among the sources. The spec's
  contract: \<^verbatim>\<open>push\<close> returns false immediately if the queue is at capacity, never
  blocks and changes nothing on failure; \<^verbatim>\<open>pop\<close> blocks the calling thread until an
  item is available, then returns it in FIFO order, removing it from the queue; a
  blocking dequeue on an empty, non-shutdown queue suspends the caller; popping after
  shutdown keeps returning the sentinel to any further caller, so that repeated polls
  do not hang; \<^verbatim>\<open>empty\<close> is a snapshot of occupancy = 0.

  The queue is the list of its items, oldest first, together with whether it is shut
  down. The items are message handles or the sentinel, the null handle \<open>None\<close>. The
  queue is shut down once \<^verbatim>\<open>pop\<close> has returned the sentinel. A \<^verbatim>\<open>pop\<close> that finds
  the queue empty returns the sentinel again if the queue is shut down; otherwise it
  does not return as long as nothing is pushed: that is the value \<open>None\<close> of the
  result.
\<close>

record 'e FixedSizeBlockingQueue =
  items :: "'e list"
  shutDown :: bool

definition FixedSizeBlockingQueue_push ::
  "nat \<Rightarrow> 'e \<Rightarrow> 'e FixedSizeBlockingQueue \<Rightarrow> bool \<times> 'e FixedSizeBlockingQueue" where
  "FixedSizeBlockingQueue_push kSize x q =
     (if length (items q) < kSize then (True, q\<lparr>items := items q @ [x]\<rparr>) else (False, q))"

definition FixedSizeBlockingQueue_pop ::
  "'a option FixedSizeBlockingQueue
     \<Rightarrow> ('a option \<times> 'a option FixedSizeBlockingQueue) option" where
  "FixedSizeBlockingQueue_pop q =
     (case items q of
        [] \<Rightarrow> if shutDown q then Some (None, q) else None
      | x # xs \<Rightarrow> Some (x, q\<lparr>items := xs, shutDown := (shutDown q \<or> x = None)\<rparr>))"

definition FixedSizeBlockingQueue_empty :: "'e FixedSizeBlockingQueue \<Rightarrow> bool" where
  "FixedSizeBlockingQueue_empty q = (items q = [])"

text \<open>\<open>n\<close> calls of \<^verbatim>\<open>pop\<close> in a row with no other thread touching the queue: the
  items returned and the queue left, or \<open>None\<close> when one of the calls blocks.\<close>

fun pops ::
  "nat \<Rightarrow> 'a option FixedSizeBlockingQueue
     \<Rightarrow> ('a option list \<times> 'a option FixedSizeBlockingQueue) option" where
  "pops 0 q = Some ([], q)"
| "pops (Suc n) q =
     (case FixedSizeBlockingQueue_pop q of
        None \<Rightarrow> None
      | Some (x, q1) \<Rightarrow>
          (case pops n q1 of None \<Rightarrow> None | Some (xs, q2) \<Rightarrow> Some (x # xs, q2)))"

text \<open>The state of the host link: the outbound queue and the record of events.\<close>

record chre_state =
  gOutboundQueue :: "MessageToHost_ptr FixedSizeBlockingQueue"
  events :: "event list"

subsection \<open>The FastRPC entry points\<close>

text \<open>How a call ends: it returns a value, it stays blocked in \<^verbatim>\<open>pop\<close>, or an
  enabled \<^verbatim>\<open>CHRE_ASSERT\<close> fails and aborts.\<close>

datatype 'a outcome = Returned 'a | Blocked | Aborted

definition farf :: "farf_level \<Rightarrow> string \<Rightarrow> int list \<Rightarrow> chre_state \<Rightarrow> chre_state" where
  "farf lvl fmt args s = s\<lparr>events := events s @ [Farf lvl fmt args]\<rparr>"

definition logd :: "string \<Rightarrow> int list \<Rightarrow> chre_state \<Rightarrow> chre_state" where
  "logd fmt args s = s\<lparr>events := events s @ [Logd fmt args]\<rparr>"

text \<open>
  Modelled from the spec: \<^verbatim>\<open>HostCommsManager::onMessageToHostComplete\<close> is not among
  the sources; the spec has it invoked so that the producing subsystem can release the
  message. The call is recorded with its argument.
\<close>

definition onMessageToHostComplete :: "MessageToHost \<Rightarrow> chre_state \<Rightarrow> chre_state" where
  "onMessageToHostComplete m s = s\<lparr>events := events s @ [MessageToHostComplete m]\<rparr>"

text \<open>\<^verbatim>\<open>memcpy(dst, src, n)\<close>: the first \<open>n\<close> bytes of \<open>dst\<close> become those of \<open>src\<close>.\<close>

definition memcpy :: "byte list \<Rightarrow> byte list \<Rightarrow> nat \<Rightarrow> byte list" where
  "memcpy dst src n = take n src @ drop n dst"

text \<open>
  \<^verbatim>\<open>chre_slpi_get_message_to_host(buffer, bufferLen, messageLen)\<close>. The caller's memory
  is passed in and returned: \<open>buffer\<close> is the content of the output buffer and
  \<open>messageLen\<close> the content of the cell the third argument points to, so both pointers
  are valid and the two assertions on them hold. \<open>bufferLen\<close> is a 32-bit \<^verbatim>\<open>int\<close>,
  read with \<open>sint\<close>; \<^verbatim>\<open>static_cast<size_t>(bufferLen)\<close> is \<open>unat bufferLen\<close> (a 32-bit
  \<^verbatim>\<open>size_t\<close>; the cast is evaluated only where \<open>bufferLen\<close> is positive). The
  definition of \<^verbatim>\<open>CHRE_ASSERT\<close> is not among the sources: \<open>assertions\<close> says whether
  the build has assertions enabled, in which case a failed one aborts.
\<close>

definition chre_slpi_get_message_to_host ::
  "bool \<Rightarrow> byte list \<Rightarrow> 32 word \<Rightarrow> 32 word \<Rightarrow> chre_state
     \<Rightarrow> (fastrpc_status \<times> byte list \<times> 32 word \<times> chre_state) outcome" where
  "chre_slpi_get_message_to_host assertions buffer bufferLen messageLen s =
     (if assertions \<and> \<not> 0 < sint bufferLen then Aborted
      else
        case FixedSizeBlockingQueue_pop (gOutboundQueue s) of
          None \<Rightarrow> Blocked
        | Some (msg, q) \<Rightarrow>
            let s1 = s\<lparr>gOutboundQueue := q\<rparr> in
            (case msg of
               None \<Rightarrow> Returned (CHRE_FASTRPC_ERROR_SHUTTING_DOWN, buffer, messageLen, s1)
             | Some m \<Rightarrow>
                 let size = length (message m) in
                 if sint bufferLen \<le> 0 \<or> size > INT_MAX \<or> size > unat bufferLen
                 then Returned (CHRE_FASTRPC_ERROR, buffer, messageLen,
                        onMessageToHostComplete m
                          (farf FATAL ''Invalid buffer size %d or message size %zu''
                             [sint bufferLen, int size] s1))
                 else Returned (CHRE_FASTRPC_SUCCESS,
                        memcpy buffer (message m) size, of_nat size,
                        onMessageToHostComplete m
                          (logd ''Copying message of size %zu'' [int size] s1))))"

definition chre_slpi_deliver_message_from_host ::
  "byte list option \<Rightarrow> 32 word \<Rightarrow> chre_state \<Rightarrow> fastrpc_status \<times> chre_state" where
  "chre_slpi_deliver_message_from_host msg messageLen s = (CHRE_FASTRPC_SUCCESS, s)"

text \<open>
  The host's polling thread calling \<^verbatim>\<open>chre_slpi_get_message_to_host\<close> \<open>n\<close> times in
  a row on the same buffer, nothing else touching the queue in between: the statuses
  returned, in order, and the caller's memory and the state after the last call. A
  call that blocks or aborts ends the row.
\<close>

fun repeated_polls ::
  "nat \<Rightarrow> bool \<Rightarrow> byte list \<Rightarrow> 32 word \<Rightarrow> 32 word \<Rightarrow> chre_state
     \<Rightarrow> (fastrpc_status list \<times> byte list \<times> 32 word \<times> chre_state) outcome" where
  "repeated_polls 0 assertions buffer bufferLen messageLen s =
     Returned ([], buffer, messageLen, s)"
| "repeated_polls (Suc n) assertions buffer bufferLen messageLen s =
     (case chre_slpi_get_message_to_host assertions buffer bufferLen messageLen s of
        Blocked \<Rightarrow> Blocked
      | Aborted \<Rightarrow> Aborted
      | Returned (r, buffer1, messageLen1, s1) \<Rightarrow>
          (case repeated_polls n assertions buffer1 bufferLen messageLen1 s1 of
             Blocked \<Rightarrow> Blocked
           | Aborted \<Rightarrow> Aborted
           | Returned (rs, buffer2, messageLen2, s2) \<Rightarrow>
               Returned (r # rs, buffer2, messageLen2, s2)))"

subsection \<open>Sending\<close>

definition HostLink_sendMessage :: "MessageToHost_ptr \<Rightarrow> chre_state \<Rightarrow> bool \<times> chre_state" where
  "HostLink_sendMessage msg s =
     (case FixedSizeBlockingQueue_push kOutboundQueueSize msg (gOutboundQueue s) of
        (ok, q) \<Rightarrow> (ok, s\<lparr>gOutboundQueue := q\<rparr>))"

subsection \<open>Shutdown\<close>

text \<open>
  \<^verbatim>\<open>shutdown\<close> runs on the runtime's thread while the host's polling thread may be
  taking items off the queue. What the other thread does to the queue is a list of
  queue transformers, arbitrary ones: the next one is applied just before each access
  \<^verbatim>\<open>shutdown\<close> makes to the queue, and once the list is used up the other thread
  does nothing more.
\<close>

type_synonym host =
  "(MessageToHost_ptr FixedSizeBlockingQueue \<Rightarrow> MessageToHost_ptr FixedSizeBlockingQueue) list"

text \<open>One thing the other thread may do: pop an item, if its \<^verbatim>\<open>pop\<close> returns.\<close>

definition host_pops ::
  "MessageToHost_ptr FixedSizeBlockingQueue \<Rightarrow> MessageToHost_ptr FixedSizeBlockingQueue" where
  "host_pops q = (case FixedSizeBlockingQueue_pop q of None \<Rightarrow> q | Some (x, q1) \<Rightarrow> q1)"

definition host_runs :: "host \<Rightarrow> chre_state \<Rightarrow> host \<times> chre_state" where
  "host_runs host s =
     (case host of
        [] \<Rightarrow> ([], s)
      | h # hs \<Rightarrow> (hs, s\<lparr>gOutboundQueue := h (gOutboundQueue s)\<rparr>))"

definition kPollingIntervalUsec :: nat where
  "kPollingIntervalUsec = 5000"

definition qurt_timer_sleep :: "nat \<Rightarrow> chre_state \<Rightarrow> chre_state" where
  "qurt_timer_sleep d s = s\<lparr>events := events s @ [TimerSleep d]\<rparr>"

text \<open>\<^verbatim>\<open>gOutboundQueue.push(nullptr)\<close> and \<^verbatim>\<open>gOutboundQueue.empty()\<close> as
  \<^verbatim>\<open>shutdown\<close> evaluates them, each recorded with its value.\<close>

definition push_nullptr :: "chre_state \<Rightarrow> bool \<times> chre_state" where
  "push_nullptr s =
     (case FixedSizeBlockingQueue_push kOutboundQueueSize None (gOutboundQueue s) of
        (ok, q) \<Rightarrow> (ok, s\<lparr>gOutboundQueue := q, events := events s @ [QueuePush ok]\<rparr>))"

definition poll_empty :: "chre_state \<Rightarrow> bool \<times> chre_state" where
  "poll_empty s =
     (let e = FixedSizeBlockingQueue_empty (gOutboundQueue s)
      in (e, s\<lparr>events := events s @ [QueueEmpty e]\<rparr>))"

text \<open>
  \<^verbatim>\<open>while (!gOutboundQueue.push(nullptr) && --retryCount > 0) qurt_timer_sleep(...)\<close>:
  the counter is decremented only after a failed push, and the loop returns the
  counter as the code after it reads it.
\<close>

function shutdown_push_loop :: "int \<Rightarrow> host \<Rightarrow> chre_state \<Rightarrow> int \<times> host \<times> chre_state" where
  "shutdown_push_loop retryCount host s =
     (case host_runs host s of (host1, s1) \<Rightarrow>
      case push_nullptr s1 of (ok, s2) \<Rightarrow>
        if ok then (retryCount, host1, s2)
        else if retryCount - 1 > 0
        then shutdown_push_loop (retryCount - 1) host1
               (qurt_timer_sleep kPollingIntervalUsec s2)
        else (retryCount - 1, host1, s2))"
  by pat_completeness auto
termination
  by (relation "measure (\<lambda>(retryCount, host, s). nat retryCount)") auto

text \<open>
  \<^verbatim>\<open>while (!gOutboundQueue.empty() && --waitCount > 0) qurt_timer_sleep(...)\<close>.
\<close>

function shutdown_wait_loop :: "int \<Rightarrow> host \<Rightarrow> chre_state \<Rightarrow> int \<times> host \<times> chre_state" where
  "shutdown_wait_loop waitCount host s =
     (case host_runs host s of (host1, s1) \<Rightarrow>
      case poll_empty s1 of (e, s2) \<Rightarrow>
        if e then (waitCount, host1, s2)
        else if waitCount - 1 > 0
        then shutdown_wait_loop (waitCount - 1) host1
               (qurt_timer_sleep kPollingIntervalUsec s2)
        else (waitCount - 1, host1, s2))"
  by pat_completeness auto
termination
  by (relation "measure (\<lambda>(waitCount, host, s). nat waitCount)") auto

definition HostLinkBase_shutdown :: "host \<Rightarrow> chre_state \<Rightarrow> chre_state" where
  "HostLinkBase_shutdown host s =
     (case shutdown_push_loop 5 host (farf MEDIUM ''Shutting down host link'' [] s) of
        (retryCount, host1, s1) \<Rightarrow>
          if retryCount \<le> 0
          then farf ERROR
                 ''No room in outbound queue for shutdown message and host not draining queue!''
                 [] s1
          else
            (case shutdown_wait_loop 5 host1 (farf MEDIUM ''Draining message queue'' [] s1) of
               (waitCount, host2, s2) \<Rightarrow>
                 if waitCount \<le> 0
                 then farf ERROR
                        ''Host took too long to drain outbound queue; exiting anyway'' [] s2
                 else farf MEDIUM ''Finished draining queue'' [] s2))"

text \<open>What one call of \<^verbatim>\<open>shutdown\<close> adds to the record of events.\<close>

definition shutdown_trace :: "host \<Rightarrow> chre_state \<Rightarrow> event list" where
  "shutdown_trace host s = drop (length (events s)) (events (HostLinkBase_shutdown host s))"

text \<open>\<open>k\<close> failed pushes, each followed by the sleep; \<open>k\<close> polls that found the
  queue not empty, each followed by the sleep.\<close>

definition failed_pushes :: "nat \<Rightarrow> event list" where
  "failed_pushes k = concat (replicate k [QueuePush False, TimerSleep 5000])"

definition failed_polls :: "nat \<Rightarrow> event list" where
  "failed_polls k = concat (replicate k [QueueEmpty False, TimerSleep 5000])"

fun is_QueuePush :: "event \<Rightarrow> bool" where
  "is_QueuePush (QueuePush b) = True"
| "is_QueuePush e = False"

fun is_QueueEmpty :: "event \<Rightarrow> bool" where
  "is_QueueEmpty (QueueEmpty b) = True"
| "is_QueueEmpty e = False"

subsection \<open>The WWAN request manager\<close>

text \<open>
  The header declares the manager's members: the platform interface, the optional
  instance id of the nanoapp with a pending request for cell info, and its cookie (a
  \<^verbatim>\<open>const void *\<close>, here an address). \<^verbatim>\<open>Nanoapp\<close> and \<^verbatim>\<open>PlatformWwan\<close> are declared in
  headers that are not among the sources: of a nanoapp the instance id is kept, and of
  the platform the number of requests issued to it and the answers its driver will
  give to the next ones (accepted or not; a driver with no answer left declines).
\<close>

record Nanoapp =
  instanceId :: "32 word"

record PlatformWwan =
  cellInfoRequests :: nat
  driverAnswers :: "bool list"

record WwanRequestManager =
  mPlatformWwan :: PlatformWwan
  mCellInfoRequestingNanoappInstanceId :: "32 word option"
  mCellInfoRequestingNanoappCookie :: nat

definition PlatformWwan_requestCellInfo :: "PlatformWwan \<Rightarrow> bool \<times> PlatformWwan" where
  "PlatformWwan_requestCellInfo p =
     (case driverAnswers p of
        [] \<Rightarrow> (False, p\<lparr>cellInfoRequests := Suc (cellInfoRequests p)\<rparr>)
      | a # as \<Rightarrow> (a, p\<lparr>cellInfoRequests := Suc (cellInfoRequests p), driverAnswers := as\<rparr>))"

text \<open>
  Modelled from the spec: the body of \<^verbatim>\<open>WwanRequestManager::requestCellInfo\<close> is not
  among the sources (the header declares it). The spec: if the slot is occupied,
  returns false immediately, with no side effects; otherwise marks the slot occupied
  with (requester, cookie), issues the request to the platform driver and returns
  whether the driver accepted it; if the driver rejects, the slot is released back to
  idle before returning.
\<close>

definition WwanRequestManager_requestCellInfo ::
  "Nanoapp \<Rightarrow> nat \<Rightarrow> WwanRequestManager \<Rightarrow> bool \<times> WwanRequestManager" where
  "WwanRequestManager_requestCellInfo nanoapp cookie mgr =
     (if mCellInfoRequestingNanoappInstanceId mgr \<noteq> None then (False, mgr)
      else
        let mgr1 = mgr\<lparr>mCellInfoRequestingNanoappInstanceId := Some (instanceId nanoapp),
                       mCellInfoRequestingNanoappCookie := cookie\<rparr>
        in case PlatformWwan_requestCellInfo (mPlatformWwan mgr1) of
             (accepted, p) \<Rightarrow>
               if accepted then (True, mgr1\<lparr>mPlatformWwan := p\<rparr>)
               else (False, mgr1\<lparr>mPlatformWwan := p,
                                 mCellInfoRequestingNanoappInstanceId := None\<rparr>))"

text \<open>The calls of the completion hook in a list of events, in order.\<close>

fun completions :: "event list \<Rightarrow> MessageToHost list" where
  "completions [] = []"
| "completions (MessageToHostComplete m # es) = m # completions es"
| "completions (e # es) = completions es"

section \<open>Properties\<close>

subsection \<open>Auxiliary facts\<close>

lemma completions_append: "completions (xs @ ys) = completions xs @ completions ys"
  by (induction xs rule: completions.induct) simp_all

lemma unat_of_positive_sint:
  fixes w :: "32 word"
  assumes "0 < sint w"
  shows "int (unat w) = sint w"
proof -
  have lt: "sint w < 2 ^ 31"
    using sint_lt [of w] by simp
  have "uint w = take_bit 32 (sint w)"
    using uint_sint [of w] by simp
  also have "\<dots> = sint w"
    using assms lt by (simp add: take_bit_int_eq_self)
  finally show ?thesis by simp
qed

lemma pop_shut_down:
  "items q = [] \<Longrightarrow> shutDown q \<Longrightarrow> FixedSizeBlockingQueue_pop q = Some (None, q)"
  by (simp add: FixedSizeBlockingQueue_pop_def)

lemma pops_shut_down:
  "items q = [] \<Longrightarrow> shutDown q \<Longrightarrow> pops n q = Some (replicate n None, q)"
  by (induction n) (simp_all add: pop_shut_down)

lemma poll_shut_down:
  assumes "items (gOutboundQueue s) = []" and "shutDown (gOutboundQueue s)"
      and "assertions \<longrightarrow> 0 < sint bufferLen"
  shows "chre_slpi_get_message_to_host assertions buffer bufferLen messageLen s
           = Returned (CHRE_FASTRPC_ERROR_SHUTTING_DOWN, buffer, messageLen, s)"
  using assms by (simp add: chre_slpi_get_message_to_host_def pop_shut_down)

lemma repeated_polls_shut_down:
  assumes "items (gOutboundQueue s) = []" and "shutDown (gOutboundQueue s)"
      and "assertions \<longrightarrow> 0 < sint bufferLen"
  shows "repeated_polls n assertions buffer bufferLen messageLen s
           = Returned (replicate n CHRE_FASTRPC_ERROR_SHUTTING_DOWN, buffer, messageLen, s)"
  using assms by (induction n) (simp_all add: poll_shut_down)

text \<open>The loops of \<^verbatim>\<open>shutdown\<close> are unfolded by hand, one iteration at a time.\<close>

declare shutdown_push_loop.simps [simp del]
declare shutdown_wait_loop.simps [simp del]

lemma host_runs_events: "host_runs host s = (host', s') \<Longrightarrow> events s' = events s"
  by (auto simp: host_runs_def split: list.splits)

lemma push_nullptr_events:
  "push_nullptr s = (ok, s') \<Longrightarrow> events s' = events s @ [QueuePush ok]"
  by (auto simp: push_nullptr_def split: prod.splits)

lemma poll_empty_events:
  "poll_empty s = (e, s') \<Longrightarrow> events s' = events s @ [QueueEmpty e]"
  by (auto simp: poll_empty_def Let_def)

lemma failed_pushes_0: "failed_pushes 0 = []"
  by (simp add: failed_pushes_def)

lemma failed_polls_0: "failed_polls 0 = []"
  by (simp add: failed_polls_def)

lemma failed_pushes_Suc:
  "failed_pushes (Suc k) = QueuePush False # TimerSleep 5000 # failed_pushes k"
  by (simp add: failed_pushes_def)

lemma failed_polls_Suc:
  "failed_polls (Suc k) = QueueEmpty False # TimerSleep 5000 # failed_polls k"
  by (simp add: failed_polls_def)

lemma push_loop_trace:
  "0 < rc \<Longrightarrow> shutdown_push_loop rc host s = (rc', host', s') \<Longrightarrow>
     (\<exists>k. k < nat rc \<and> 0 < rc' \<and> events s' = events s @ failed_pushes k @ [QueuePush True])
   \<or> (rc' = 0 \<and> events s' = events s @ failed_pushes (nat rc - 1) @ [QueuePush False])"
proof (induction rc host s arbitrary: rc' host' s' rule: shutdown_push_loop.induct)
  case (1 retryCount host s)
  obtain host1 s1 where h: "host_runs host s = (host1, s1)"
    by (cases "host_runs host s")
  obtain ok s2 where p: "push_nullptr s1 = (ok, s2)"
    by (cases "push_nullptr s1")
  have ev2: "events s2 = events s @ [QueuePush ok]"
    using host_runs_events [OF h] push_nullptr_events [OF p] by simp
  show ?case
  proof (cases ok)
    case True
    with "1.prems" h p have "rc' = retryCount" "s' = s2"
      by (simp_all add: shutdown_push_loop.simps [of retryCount host s])
    with True ev2 "1.prems"(1) have
      "0 < nat retryCount \<and> 0 < rc' \<and> events s' = events s @ failed_pushes 0 @ [QueuePush True]"
      by (simp add: failed_pushes_def)
    then show ?thesis by blast
  next
    case False
    show ?thesis
    proof (cases "retryCount - 1 > 0")
      case more: True
      let ?s3 = "qurt_timer_sleep kPollingIntervalUsec s2"
      have ev3: "events ?s3 = events s @ [QueuePush False, TimerSleep 5000]"
        using ev2 False by (simp add: qurt_timer_sleep_def kPollingIntervalUsec_def)
      from "1.prems" h p False more
      have rec: "shutdown_push_loop (retryCount - 1) host1 ?s3 = (rc', host', s')"
        by (simp add: shutdown_push_loop.simps [of retryCount host s])
      have IH: "(\<exists>k. k < nat (retryCount - 1) \<and> 0 < rc'
                   \<and> events s' = events ?s3 @ failed_pushes k @ [QueuePush True])
              \<or> (rc' = 0 \<and> events s' = events ?s3
                     @ failed_pushes (nat (retryCount - 1) - 1) @ [QueuePush False])"
        using "1.IH" [OF h [symmetric] p [symmetric] False more more rec] .
      then show ?thesis
      proof
        assume "\<exists>k. k < nat (retryCount - 1) \<and> 0 < rc'
                   \<and> events s' = events ?s3 @ failed_pushes k @ [QueuePush True]"
        then obtain k where k: "k < nat (retryCount - 1)" "0 < rc'"
            "events s' = events ?s3 @ failed_pushes k @ [QueuePush True]"
          by blast
        then have "Suc k < nat retryCount \<and> 0 < rc'
            \<and> events s' = events s @ failed_pushes (Suc k) @ [QueuePush True]"
          using ev3 more by (simp add: failed_pushes_Suc)
        then show ?thesis by blast
      next
        assume a: "rc' = 0 \<and> events s' = events ?s3
                     @ failed_pushes (nat (retryCount - 1) - 1) @ [QueuePush False]"
        have "nat retryCount - 1 = Suc (nat (retryCount - 1) - 1)"
          using more by arith
        then have "failed_pushes (nat retryCount - 1)
            = QueuePush False # TimerSleep 5000 # failed_pushes (nat (retryCount - 1) - 1)"
          by (simp only: failed_pushes_Suc)
        with a ev3 show ?thesis
          by simp
      qed
    next
      case last: False
      with "1.prems" h p False have "rc' = retryCount - 1" "s' = s2"
        by (simp_all add: shutdown_push_loop.simps [of retryCount host s])
      moreover from last "1.prems"(1) have "retryCount = 1" by simp
      ultimately show ?thesis
        using ev2 False by (simp add: failed_pushes_def)
    qed
  qed
qed

lemma wait_loop_trace:
  "0 < wc \<Longrightarrow> shutdown_wait_loop wc host s = (wc', host', s') \<Longrightarrow>
     (\<exists>k. k < nat wc \<and> 0 < wc' \<and> events s' = events s @ failed_polls k @ [QueueEmpty True])
   \<or> (wc' = 0 \<and> events s' = events s @ failed_polls (nat wc - 1) @ [QueueEmpty False])"
proof (induction wc host s arbitrary: wc' host' s' rule: shutdown_wait_loop.induct)
  case (1 waitCount host s)
  obtain host1 s1 where h: "host_runs host s = (host1, s1)"
    by (cases "host_runs host s")
  obtain e s2 where p: "poll_empty s1 = (e, s2)"
    by (cases "poll_empty s1")
  have ev2: "events s2 = events s @ [QueueEmpty e]"
    using host_runs_events [OF h] poll_empty_events [OF p] by simp
  show ?case
  proof (cases e)
    case True
    with "1.prems" h p have "wc' = waitCount" "s' = s2"
      by (simp_all add: shutdown_wait_loop.simps [of waitCount host s])
    with True ev2 "1.prems"(1) have
      "0 < nat waitCount \<and> 0 < wc' \<and> events s' = events s @ failed_polls 0 @ [QueueEmpty True]"
      by (simp add: failed_polls_def)
    then show ?thesis by blast
  next
    case False
    show ?thesis
    proof (cases "waitCount - 1 > 0")
      case more: True
      let ?s3 = "qurt_timer_sleep kPollingIntervalUsec s2"
      have ev3: "events ?s3 = events s @ [QueueEmpty False, TimerSleep 5000]"
        using ev2 False by (simp add: qurt_timer_sleep_def kPollingIntervalUsec_def)
      from "1.prems" h p False more
      have rec: "shutdown_wait_loop (waitCount - 1) host1 ?s3 = (wc', host', s')"
        by (simp add: shutdown_wait_loop.simps [of waitCount host s])
      have IH: "(\<exists>k. k < nat (waitCount - 1) \<and> 0 < wc'
                   \<and> events s' = events ?s3 @ failed_polls k @ [QueueEmpty True])
              \<or> (wc' = 0 \<and> events s' = events ?s3
                     @ failed_polls (nat (waitCount - 1) - 1) @ [QueueEmpty False])"
        using "1.IH" [OF h [symmetric] p [symmetric] False more more rec] .
      then show ?thesis
      proof
        assume "\<exists>k. k < nat (waitCount - 1) \<and> 0 < wc'
                   \<and> events s' = events ?s3 @ failed_polls k @ [QueueEmpty True]"
        then obtain k where k: "k < nat (waitCount - 1)" "0 < wc'"
            "events s' = events ?s3 @ failed_polls k @ [QueueEmpty True]"
          by blast
        then have "Suc k < nat waitCount \<and> 0 < wc'
            \<and> events s' = events s @ failed_polls (Suc k) @ [QueueEmpty True]"
          using ev3 more by (simp add: failed_polls_Suc)
        then show ?thesis by blast
      next
        assume a: "wc' = 0 \<and> events s' = events ?s3
                     @ failed_polls (nat (waitCount - 1) - 1) @ [QueueEmpty False]"
        have "nat waitCount - 1 = Suc (nat (waitCount - 1) - 1)"
          using more by arith
        then have "failed_polls (nat waitCount - 1)
            = QueueEmpty False # TimerSleep 5000 # failed_polls (nat (waitCount - 1) - 1)"
          by (simp only: failed_polls_Suc)
        with a ev3 show ?thesis
          by simp
      qed
    next
      case last: False
      with "1.prems" h p False have "wc' = waitCount - 1" "s' = s2"
        by (simp_all add: shutdown_wait_loop.simps [of waitCount host s])
      moreover from last "1.prems"(1) have "waitCount = 1" by simp
      ultimately show ?thesis
        using ev2 False by (simp add: failed_polls_def)
    qed
  qed
qed


lemma shutdown_events_cases:
  "events (HostLinkBase_shutdown host s) = events s @
       Farf MEDIUM ''Shutting down host link'' [] # failed_pushes 4 @
       [QueuePush False,
        Farf ERROR
          ''No room in outbound queue for shutdown message and host not draining queue!'' []]
   \<or> (\<exists>k<5. \<exists>j<5. events (HostLinkBase_shutdown host s) = events s @
          Farf MEDIUM ''Shutting down host link'' [] # failed_pushes k @
          [QueuePush True, Farf MEDIUM ''Draining message queue'' []] @ failed_polls j @
          [QueueEmpty True, Farf MEDIUM ''Finished draining queue'' []])
   \<or> (\<exists>k<5. events (HostLinkBase_shutdown host s) = events s @
          Farf MEDIUM ''Shutting down host link'' [] # failed_pushes k @
          [QueuePush True, Farf MEDIUM ''Draining message queue'' []] @ failed_polls 4 @
          [QueueEmpty False,
           Farf ERROR ''Host took too long to drain outbound queue; exiting anyway'' []])"
proof -
  let ?s0 = "farf MEDIUM ''Shutting down host link'' [] s"
  obtain rc host1 s1 where pl: "shutdown_push_loop 5 host ?s0 = (rc, host1, s1)"
    by (cases "shutdown_push_loop 5 host ?s0")
  have ev0: "events ?s0 = events s @ [Farf MEDIUM ''Shutting down host link'' []]"
    by (simp add: farf_def)
  from push_loop_trace [OF _ pl]
  have "(\<exists>k<5. 0 < rc \<and> events s1 = events ?s0 @ failed_pushes k @ [QueuePush True])
      \<or> (rc = 0 \<and> events s1 = events ?s0 @ failed_pushes 4 @ [QueuePush False])"
    by simp
  then show ?thesis
  proof
    assume "rc = 0 \<and> events s1 = events ?s0 @ failed_pushes 4 @ [QueuePush False]"
    with pl ev0 have "events (HostLinkBase_shutdown host s) = events s @
       Farf MEDIUM ''Shutting down host link'' [] # failed_pushes 4 @
       [QueuePush False,
        Farf ERROR
          ''No room in outbound queue for shutdown message and host not draining queue!'' []]"
      by (simp add: HostLinkBase_shutdown_def farf_def)
    then show ?thesis by blast
  next
    assume "\<exists>k<5. 0 < rc \<and> events s1 = events ?s0 @ failed_pushes k @ [QueuePush True]"
    then obtain k where k: "k < 5" "0 < rc"
        "events s1 = events ?s0 @ failed_pushes k @ [QueuePush True]"
      by blast
    let ?s2 = "farf MEDIUM ''Draining message queue'' [] s1"
    obtain wc host2 s3 where wl: "shutdown_wait_loop 5 host1 ?s2 = (wc, host2, s3)"
      by (cases "shutdown_wait_loop 5 host1 ?s2")
    have ev2: "events ?s2 = events s @ Farf MEDIUM ''Shutting down host link'' []
                 # failed_pushes k @ [QueuePush True, Farf MEDIUM ''Draining message queue'' []]"
      using k(3) ev0 by (simp add: farf_def)
    from wait_loop_trace [OF _ wl]
    have "(\<exists>j<5. 0 < wc \<and> events s3 = events ?s2 @ failed_polls j @ [QueueEmpty True])
        \<or> (wc = 0 \<and> events s3 = events ?s2 @ failed_polls 4 @ [QueueEmpty False])"
      by simp
    then show ?thesis
    proof
      assume "wc = 0 \<and> events s3 = events ?s2 @ failed_polls 4 @ [QueueEmpty False]"
      with pl wl k(2) ev2 have "events (HostLinkBase_shutdown host s) = events s @
          Farf MEDIUM ''Shutting down host link'' [] # failed_pushes k @
          [QueuePush True, Farf MEDIUM ''Draining message queue'' []] @ failed_polls 4 @
          [QueueEmpty False,
           Farf ERROR ''Host took too long to drain outbound queue; exiting anyway'' []]"
        by (simp add: HostLinkBase_shutdown_def farf_def)
      with k(1) show ?thesis by blast
    next
      assume "\<exists>j<5. 0 < wc \<and> events s3 = events ?s2 @ failed_polls j @ [QueueEmpty True]"
      then obtain j where j: "j < 5" "0 < wc"
          "events s3 = events ?s2 @ failed_polls j @ [QueueEmpty True]"
        by blast
      with pl wl k(2) ev2 have "events (HostLinkBase_shutdown host s) = events s @
          Farf MEDIUM ''Shutting down host link'' [] # failed_pushes k @
          [QueuePush True, Farf MEDIUM ''Draining message queue'' []] @ failed_polls j @
          [QueueEmpty True, Farf MEDIUM ''Finished draining queue'' []]"
        by (simp add: HostLinkBase_shutdown_def farf_def)
      with k(1) j(1) show ?thesis by blast
    qed
  qed
qed


lemma shutdown_trace_eq:
  "events (HostLinkBase_shutdown host s) = events s @ tr \<Longrightarrow> shutdown_trace host s = tr"
  by (simp add: shutdown_trace_def)

lemma shutdown_cases:
  "shutdown_trace host s =
       Farf MEDIUM ''Shutting down host link'' [] # failed_pushes 4 @
       [QueuePush False,
        Farf ERROR
          ''No room in outbound queue for shutdown message and host not draining queue!'' []]
   \<or> (\<exists>k<5. \<exists>j<5. shutdown_trace host s =
          Farf MEDIUM ''Shutting down host link'' [] # failed_pushes k @
          [QueuePush True, Farf MEDIUM ''Draining message queue'' []] @ failed_polls j @
          [QueueEmpty True, Farf MEDIUM ''Finished draining queue'' []])
   \<or> (\<exists>k<5. shutdown_trace host s =
          Farf MEDIUM ''Shutting down host link'' [] # failed_pushes k @
          [QueuePush True, Farf MEDIUM ''Draining message queue'' []] @ failed_polls 4 @
          [QueueEmpty False,
           Farf ERROR ''Host took too long to drain outbound queue; exiting anyway'' []])"
  using shutdown_events_cases [of host s] by (metis shutdown_trace_eq)

lemma shutdown_events_append:
  "events (HostLinkBase_shutdown host s) = events s @ shutdown_trace host s"
  using shutdown_events_cases [of host s] by (metis shutdown_trace_eq)

lemma filter_push_failed_pushes:
  "filter is_QueuePush (failed_pushes k) = replicate k (QueuePush False)"
  by (induction k) (simp_all add: failed_pushes_0 failed_pushes_Suc)

lemma filter_push_failed_polls: "filter is_QueuePush (failed_polls j) = []"
  by (induction j) (simp_all add: failed_polls_0 failed_polls_Suc)

lemma filter_empty_failed_pushes: "filter is_QueueEmpty (failed_pushes k) = []"
  by (induction k) (simp_all add: failed_pushes_0 failed_pushes_Suc)

lemma filter_empty_failed_polls:
  "filter is_QueueEmpty (failed_polls j) = replicate j (QueueEmpty False)"
  by (induction j) (simp_all add: failed_polls_0 failed_polls_Suc)

lemma push_True_notin_failed_pushes: "QueuePush True \<notin> set (failed_pushes k)"
  by (induction k) (simp_all add: failed_pushes_0 failed_pushes_Suc)

lemma failed_pushes_4:
  "failed_pushes 4 =
     [QueuePush False, TimerSleep 5000, QueuePush False, TimerSleep 5000,
      QueuePush False, TimerSleep 5000, QueuePush False, TimerSleep 5000]"
  by (simp add: failed_pushes_def numeral_eq_Suc)

subsection \<open>The blocking drain entry point\<close>

text \<open>
  C1. A call of \<^verbatim>\<open>chre_slpi_get_message_to_host\<close> that takes a message other than
  the sentinel off the queue returns, with SUCCESS when the buffer validation passes and
  with ERROR when it fails, and in both cases the completion hook has been called
  exactly once more, on that message. (The call takes an item off the queue unless an
  enabled assertion on \<open>bufferLen\<close> has aborted it before.)
\<close>

theorem get_message_completes_once:
  assumes deq: "FixedSizeBlockingQueue_pop (gOutboundQueue s) = Some (Some m, q)"
      and pass: "assertions \<longrightarrow> 0 < sint bufferLen"
  shows "\<exists>r buffer' messageLen' s'.
           chre_slpi_get_message_to_host assertions buffer bufferLen messageLen s
             = Returned (r, buffer', messageLen', s')
         \<and> r = (if sint bufferLen \<le> 0 \<or> length (message m) > INT_MAX
                     \<or> length (message m) > unat bufferLen
                 then CHRE_FASTRPC_ERROR else CHRE_FASTRPC_SUCCESS)
         \<and> gOutboundQueue s' = q
         \<and> completions (events s') = completions (events s) @ [m]"
  using deq pass
  by (simp add: chre_slpi_get_message_to_host_def Let_def onMessageToHostComplete_def
        farf_def logd_def completions_append)

text \<open>A message of two bytes, once with a buffer of one byte and once with three.\<close>

theorem get_message_completes_once_witness:
  "FixedSizeBlockingQueue_pop
       (gOutboundQueue \<lparr>gOutboundQueue = \<lparr>items = [Some \<lparr>message = [1, 2]\<rparr>], shutDown = False\<rparr>,
        events = []\<rparr>)
     = Some (Some \<lparr>message = [1, 2]\<rparr>, \<lparr>items = [], shutDown = False\<rparr>)
   \<and> 0 < sint (1 :: 32 word) \<and> 0 < sint (3 :: 32 word)
   \<and> chre_slpi_get_message_to_host True [0, 0, 0] 1 0
        \<lparr>gOutboundQueue = \<lparr>items = [Some \<lparr>message = [1, 2]\<rparr>], shutDown = False\<rparr>,
         events = []\<rparr>
      = Returned (CHRE_FASTRPC_ERROR, [0, 0, 0], 0,
          \<lparr>gOutboundQueue = \<lparr>items = [], shutDown = False\<rparr>, events =
             [Farf FATAL ''Invalid buffer size %d or message size %zu'' [1, 2],
              MessageToHostComplete \<lparr>message = [1, 2]\<rparr>]\<rparr>)
   \<and> chre_slpi_get_message_to_host True [0, 0, 0] 3 0
        \<lparr>gOutboundQueue = \<lparr>items = [Some \<lparr>message = [1, 2]\<rparr>], shutDown = False\<rparr>,
         events = []\<rparr>
      = Returned (CHRE_FASTRPC_SUCCESS, [1, 2, 0], 2,
          \<lparr>gOutboundQueue = \<lparr>items = [], shutDown = False\<rparr>, events =
             [Logd ''Copying message of size %zu'' [2],
              MessageToHostComplete \<lparr>message = [1, 2]\<rparr>]\<rparr>)"
  using get_message_completes_once
          [of "\<lparr>gOutboundQueue = \<lparr>items = [Some \<lparr>message = [1, 2]\<rparr>], shutDown = False\<rparr>,
           events = []\<rparr>"
              "\<lparr>message = [1, 2]\<rparr>" "\<lparr>items = [], shutDown = False\<rparr>" True 1 "[0, 0, 0]" 0]
        get_message_completes_once
          [of "\<lparr>gOutboundQueue = \<lparr>items = [Some \<lparr>message = [1, 2]\<rparr>], shutDown = False\<rparr>,
           events = []\<rparr>"
              "\<lparr>message = [1, 2]\<rparr>" "\<lparr>items = [], shutDown = False\<rparr>" True 3 "[0, 0, 0]" 0]
  by (simp add: chre_slpi_get_message_to_host_def Let_def onMessageToHostComplete_def
        farf_def logd_def FixedSizeBlockingQueue_pop_def INT_MAX_def memcpy_def)

text \<open>
  C2. A call that pops the sentinel returns the shutting-down status; the buffer and
  \<open>messageLen\<close> are as they were, and the state differs from the one before only in
  the queue, so the completion hook has not been called.
\<close>

theorem get_message_sentinel:
  assumes deq: "FixedSizeBlockingQueue_pop (gOutboundQueue s) = Some (None, q)"
      and pass: "assertions \<longrightarrow> 0 < sint bufferLen"
  shows "chre_slpi_get_message_to_host assertions buffer bufferLen messageLen s
           = Returned (CHRE_FASTRPC_ERROR_SHUTTING_DOWN, buffer, messageLen,
                       s\<lparr>gOutboundQueue := q\<rparr>)"
  using deq pass by (simp add: chre_slpi_get_message_to_host_def)

theorem get_message_sentinel_witness:
  "FixedSizeBlockingQueue_pop
       (gOutboundQueue \<lparr>gOutboundQueue = \<lparr>items = [None, Some \<lparr>message = [7]\<rparr>], shutDown = False\<rparr>,
        events = []\<rparr>)
     = Some (None, \<lparr>items = [Some \<lparr>message = [7]\<rparr>], shutDown = True\<rparr>)
   \<and> 0 < sint (4 :: 32 word)
   \<and> chre_slpi_get_message_to_host True [9, 9, 9, 9] 4 5
        \<lparr>gOutboundQueue = \<lparr>items = [None, Some \<lparr>message = [7]\<rparr>], shutDown = False\<rparr>,
         events = []\<rparr>
      = Returned (CHRE_FASTRPC_ERROR_SHUTTING_DOWN, [9, 9, 9, 9], 5,
          \<lparr>gOutboundQueue = \<lparr>items = [Some \<lparr>message = [7]\<rparr>], shutDown = True\<rparr>,
           events = []\<rparr>)"
  using get_message_sentinel
          [of "\<lparr>gOutboundQueue = \<lparr>items = [None, Some \<lparr>message = [7]\<rparr>], shutDown = False\<rparr>,
           events = []\<rparr>"
              "\<lparr>items = [Some \<lparr>message = [7]\<rparr>], shutDown = True\<rparr>" True 4 "[9, 9, 9, 9]" 5]
  by (simp add: FixedSizeBlockingQueue_pop_def)

text \<open>
  C3. When \<open>bufferLen\<close> is smaller than the size of the payload of the message taken
  off the queue, or that size exceeds \<open>INT_MAX\<close>, the call returns ERROR, the buffer and
  \<open>messageLen\<close> are as they were, and the completion hook is called once, after the
  line written with \<^verbatim>\<open>FARF\<close>.
\<close>

theorem get_message_buffer_too_small:
  assumes deq: "FixedSizeBlockingQueue_pop (gOutboundQueue s) = Some (Some m, q)"
      and pass: "assertions \<longrightarrow> 0 < sint bufferLen"
      and small: "sint bufferLen < int (length (message m)) \<or> length (message m) > INT_MAX"
  shows "chre_slpi_get_message_to_host assertions buffer bufferLen messageLen s
           = Returned (CHRE_FASTRPC_ERROR, buffer, messageLen,
               s\<lparr>gOutboundQueue := q,
                 events := events s @
                   [Farf FATAL ''Invalid buffer size %d or message size %zu''
                      [sint bufferLen, int (length (message m))],
                    MessageToHostComplete m]\<rparr>)"
proof -
  have "sint bufferLen \<le> 0 \<or> length (message m) > INT_MAX
          \<or> length (message m) > unat bufferLen"
  proof (cases "sint bufferLen \<le> 0")
    case True
    then show ?thesis by simp
  next
    case False
    then have "0 < sint bufferLen"
      by simp
    then have "int (unat bufferLen) = sint bufferLen"
      by (rule unat_of_positive_sint)
    with small show ?thesis by linarith
  qed
  with deq pass show ?thesis
    by (simp add: chre_slpi_get_message_to_host_def Let_def onMessageToHostComplete_def
          farf_def)
qed

theorem get_message_buffer_too_small_witness:
  "FixedSizeBlockingQueue_pop
       (gOutboundQueue \<lparr>gOutboundQueue = \<lparr>items = [Some \<lparr>message = [1, 2, 3]\<rparr>], shutDown = False\<rparr>,
        events = []\<rparr>)
     = Some (Some \<lparr>message = [1, 2, 3]\<rparr>, \<lparr>items = [], shutDown = False\<rparr>)
   \<and> 0 < sint (2 :: 32 word)
   \<and> sint (2 :: 32 word) < int (length (message \<lparr>message = [1, 2, 3]\<rparr>))
   \<and> chre_slpi_get_message_to_host True [0, 0] 2 0
        \<lparr>gOutboundQueue = \<lparr>items = [Some \<lparr>message = [1, 2, 3]\<rparr>], shutDown = False\<rparr>,
         events = []\<rparr>
      = Returned (CHRE_FASTRPC_ERROR, [0, 0], 0,
          \<lparr>gOutboundQueue = \<lparr>items = [], shutDown = False\<rparr>, events =
             [Farf FATAL ''Invalid buffer size %d or message size %zu'' [2, 3],
              MessageToHostComplete \<lparr>message = [1, 2, 3]\<rparr>]\<rparr>)"
  using get_message_buffer_too_small
          [of "\<lparr>gOutboundQueue = \<lparr>items = [Some \<lparr>message = [1, 2, 3]\<rparr>], shutDown = False\<rparr>,
           events = []\<rparr>"
              "\<lparr>message = [1, 2, 3]\<rparr>" "\<lparr>items = [], shutDown = False\<rparr>" True 2 "[0, 0]" 0]
  by (simp add: FixedSizeBlockingQueue_pop_def)

text \<open>
  C10. Whatever a call of \<^verbatim>\<open>chre_slpi_get_message_to_host\<close> returns, the status is
  SUCCESS, ERROR or SHUTTING_DOWN, and unless it is SUCCESS the buffer and
  \<open>messageLen\<close> are as they were before the call.
\<close>

theorem get_message_frame:
  assumes "chre_slpi_get_message_to_host assertions buffer bufferLen messageLen s
             = Returned (r, buffer', messageLen', s')"
  shows "(r \<noteq> CHRE_FASTRPC_SUCCESS \<longrightarrow> buffer' = buffer \<and> messageLen' = messageLen)
       \<and> r \<in> {CHRE_FASTRPC_SUCCESS, CHRE_FASTRPC_ERROR, CHRE_FASTRPC_ERROR_SHUTTING_DOWN}"
  using assms
  by (auto simp: chre_slpi_get_message_to_host_def Let_def
           split: if_splits option.splits prod.splits)

theorem get_message_frame_witness:
  "chre_slpi_get_message_to_host False [5, 6] 1 8
       \<lparr>gOutboundQueue = \<lparr>items = [Some \<lparr>message = [1, 2]\<rparr>], shutDown = False\<rparr>,
        events = []\<rparr>
     = Returned (CHRE_FASTRPC_ERROR, [5, 6], 8,
         \<lparr>gOutboundQueue = \<lparr>items = [], shutDown = False\<rparr>, events =
            [Farf FATAL ''Invalid buffer size %d or message size %zu'' [1, 2],
             MessageToHostComplete \<lparr>message = [1, 2]\<rparr>]\<rparr>)
   \<and> CHRE_FASTRPC_ERROR \<noteq> CHRE_FASTRPC_SUCCESS
   \<and> ([5, 6] :: byte list) = [5, 6] \<and> (8 :: 32 word) = 8"
  using get_message_frame
          [of False "[5, 6]" 1 8
              "\<lparr>gOutboundQueue = \<lparr>items = [Some \<lparr>message = [1, 2]\<rparr>], shutDown = False\<rparr>,
               events = []\<rparr>"
              CHRE_FASTRPC_ERROR "[5, 6]" 8
              "\<lparr>gOutboundQueue = \<lparr>items = [], shutDown = False\<rparr>, events =
                 [Farf FATAL ''Invalid buffer size %d or message size %zu'' [1, 2],
                  MessageToHostComplete \<lparr>message = [1, 2]\<rparr>]\<rparr>"]
  by (simp add: chre_slpi_get_message_to_host_def Let_def onMessageToHostComplete_def
        farf_def FixedSizeBlockingQueue_pop_def INT_MAX_def)

subsection \<open>Sentinel delivery\<close>

text \<open>
  C4. \<^verbatim>\<open>shutdown\<close> has pushed the sentinel, with success, on the queue that held
  nothing else, and nothing but the host's polls touches the queue from then on. Then
  every pop returns the sentinel and none blocks, however many there are; and every
  call of \<^verbatim>\<open>chre_slpi_get_message_to_host\<close> returns the shutting-down status, so the
  host never waits in a poll and is never handed a message: the buffer and
  \<open>messageLen\<close> are as they were, and no hook call is recorded. The first poll takes the
  sentinel out of the queue and leaves the queue shut down; the later ones leave it as
  it is.
\<close>

theorem sentinel_delivery_repeats:
  assumes idle: "items (gOutboundQueue s) = []"
      and pushed: "push_nullptr s = (True, s1)"
      and pass: "assertions \<longrightarrow> 0 < sint bufferLen"
  shows "pops (Suc n) (gOutboundQueue s1)
           = Some (replicate (Suc n) None, (gOutboundQueue s)\<lparr>shutDown := True\<rparr>)
       \<and> repeated_polls (Suc n) assertions buffer bufferLen messageLen s1
           = Returned (replicate (Suc n) CHRE_FASTRPC_ERROR_SHUTTING_DOWN, buffer, messageLen,
               s1\<lparr>gOutboundQueue := (gOutboundQueue s)\<lparr>shutDown := True\<rparr>\<rparr>)"
proof -
  let ?q = "(gOutboundQueue s)\<lparr>shutDown := True\<rparr>"
  from pushed idle have q1: "gOutboundQueue s1 = (gOutboundQueue s)\<lparr>items := [None]\<rparr>"
    by (auto simp: push_nullptr_def FixedSizeBlockingQueue_push_def split: if_splits)
  have first_pop: "FixedSizeBlockingQueue_pop (gOutboundQueue s1) = Some (None, ?q)"
    using idle by (simp add: q1 FixedSizeBlockingQueue_pop_def)
  have q_idle: "items ?q = []" "shutDown ?q"
    using idle by simp_all
  have "pops (Suc n) (gOutboundQueue s1) = Some (replicate (Suc n) None, ?q)"
    using first_pop pops_shut_down [OF q_idle, of n] by simp
  moreover
  let ?s2 = "s1\<lparr>gOutboundQueue := ?q\<rparr>"
  have first_poll: "chre_slpi_get_message_to_host assertions buffer bufferLen messageLen s1
      = Returned (CHRE_FASTRPC_ERROR_SHUTTING_DOWN, buffer, messageLen, ?s2)"
    using first_pop pass by (simp add: chre_slpi_get_message_to_host_def)
  have "repeated_polls n assertions buffer bufferLen messageLen ?s2
      = Returned (replicate n CHRE_FASTRPC_ERROR_SHUTTING_DOWN, buffer, messageLen, ?s2)"
    using idle pass by (intro repeated_polls_shut_down) simp_all
  with first_poll
  have "repeated_polls (Suc n) assertions buffer bufferLen messageLen s1
      = Returned (replicate (Suc n) CHRE_FASTRPC_ERROR_SHUTTING_DOWN, buffer, messageLen, ?s2)"
    by simp
  ultimately show ?thesis by simp
qed

text \<open>The empty queue, the push that \<^verbatim>\<open>shutdown\<close> makes, and three polls after it.\<close>

theorem sentinel_delivery_repeats_witness:
  "items (gOutboundQueue
      \<lparr>gOutboundQueue = \<lparr>items = [], shutDown = False\<rparr>,
       events = []\<rparr>) = []
   \<and> push_nullptr \<lparr>gOutboundQueue = \<lparr>items = [], shutDown = False\<rparr>,
    events = []\<rparr>
     = (True, \<lparr>gOutboundQueue = \<lparr>items = [None], shutDown = False\<rparr>,
               events = [QueuePush True]\<rparr>)
   \<and> 0 < sint (4 :: 32 word)
   \<and> pops 3 \<lparr>items = [None :: MessageToHost_ptr], shutDown = False\<rparr>
     = Some ([None, None, None], \<lparr>items = [], shutDown = True\<rparr>)
   \<and> repeated_polls 3 True [9, 9, 9, 9] 4 5
        \<lparr>gOutboundQueue = \<lparr>items = [None], shutDown = False\<rparr>,
         events = [QueuePush True]\<rparr>
     = Returned
         ([CHRE_FASTRPC_ERROR_SHUTTING_DOWN, CHRE_FASTRPC_ERROR_SHUTTING_DOWN,
           CHRE_FASTRPC_ERROR_SHUTTING_DOWN], [9, 9, 9, 9], 5,
          \<lparr>gOutboundQueue = \<lparr>items = [], shutDown = True\<rparr>,
           events = [QueuePush True]\<rparr>)"
proof -
  have p: "push_nullptr \<lparr>gOutboundQueue = \<lparr>items = [], shutDown = False\<rparr>,
   events = []\<rparr>
     = (True, \<lparr>gOutboundQueue = \<lparr>items = [None], shutDown = False\<rparr>,
               events = [QueuePush True]\<rparr>)"
    by (simp add: push_nullptr_def FixedSizeBlockingQueue_push_def kOutboundQueueSize_def)
  show ?thesis
    using p sentinel_delivery_repeats
              [OF _ p, of True 4 2 "[9, 9, 9, 9]" 5]
    by (simp add: numeral_3_eq_3)
qed

subsection \<open>Shutdown\<close>

text \<open>
  C5. Whatever the other thread does to the queue, \<^verbatim>\<open>shutdown\<close> pushes the sentinel
  at most 5 times, sleeping 5000 microseconds after each failed push but the fifth. If
  no push succeeds, what it does is exactly: the opening line, five failed pushes with
  four sleeps between them, and the error line written with \<^verbatim>\<open>FARF\<close>; in particular
  \<^verbatim>\<open>empty()\<close> is never evaluated.
\<close>

theorem shutdown_push_attempts:
  "events (HostLinkBase_shutdown host s) = events s @ shutdown_trace host s
   \<and> length (filter is_QueuePush (shutdown_trace host s)) \<le> 5
   \<and> (shutdown_trace host s =
         [Farf MEDIUM ''Shutting down host link'' [],
          QueuePush False, TimerSleep 5000, QueuePush False, TimerSleep 5000,
          QueuePush False, TimerSleep 5000, QueuePush False, TimerSleep 5000,
          QueuePush False,
          Farf ERROR
            ''No room in outbound queue for shutdown message and host not draining queue!'' []]
        \<or> (\<exists>k<5. \<exists>rest. shutdown_trace host s =
              Farf MEDIUM ''Shutting down host link'' [] # failed_pushes k
                @ QueuePush True # rest))
   \<and> (QueuePush True \<notin> set (shutdown_trace host s) \<longrightarrow>
        shutdown_trace host s =
         [Farf MEDIUM ''Shutting down host link'' [],
          QueuePush False, TimerSleep 5000, QueuePush False, TimerSleep 5000,
          QueuePush False, TimerSleep 5000, QueuePush False, TimerSleep 5000,
          QueuePush False,
          Farf ERROR
            ''No room in outbound queue for shutdown message and host not draining queue!'' []]
        \<and> filter is_QueueEmpty (shutdown_trace host s) = [])"
proof -
  let ?tr = "shutdown_trace host s"
  let ?fail = "[Farf MEDIUM ''Shutting down host link'' [],
          QueuePush False, TimerSleep 5000, QueuePush False, TimerSleep 5000,
          QueuePush False, TimerSleep 5000, QueuePush False, TimerSleep 5000,
          QueuePush False,
          Farf ERROR
            ''No room in outbound queue for shutdown message and host not draining queue!'' []]"
  consider
    (abandoned) "?tr = Farf MEDIUM ''Shutting down host link'' [] # failed_pushes 4 @
       [QueuePush False,
        Farf ERROR
          ''No room in outbound queue for shutdown message and host not draining queue!'' []]"
  | (drained) k j where "k < 5" "j < 5" "?tr =
          Farf MEDIUM ''Shutting down host link'' [] # failed_pushes k @
          [QueuePush True, Farf MEDIUM ''Draining message queue'' []] @ failed_polls j @
          [QueueEmpty True, Farf MEDIUM ''Finished draining queue'' []]"
  | (timeout) k where "k < 5" "?tr =
          Farf MEDIUM ''Shutting down host link'' [] # failed_pushes k @
          [QueuePush True, Farf MEDIUM ''Draining message queue'' []] @ failed_polls 4 @
          [QueueEmpty False,
           Farf ERROR ''Host took too long to drain outbound queue; exiting anyway'' []]"
    using shutdown_cases [of host s] by blast
  then have main: "length (filter is_QueuePush ?tr) \<le> 5
      \<and> (?tr = ?fail \<or> (\<exists>k<5. \<exists>rest. ?tr =
              Farf MEDIUM ''Shutting down host link'' [] # failed_pushes k
                @ QueuePush True # rest))
      \<and> (QueuePush True \<notin> set ?tr \<longrightarrow> ?tr = ?fail \<and> filter is_QueueEmpty ?tr = [])"
  proof cases
    case abandoned
    then have "?tr = ?fail"
      by (simp add: failed_pushes_4)
    then show ?thesis by simp
  next
    case drained
    have "length (filter is_QueuePush ?tr) = Suc k"
      by (simp add: drained(3) filter_push_failed_pushes filter_push_failed_polls)
    moreover have "QueuePush True \<in> set ?tr"
      by (simp add: drained(3))
    moreover have "\<exists>k<5. \<exists>rest. ?tr =
              Farf MEDIUM ''Shutting down host link'' [] # failed_pushes k
                @ QueuePush True # rest"
      using drained(1) drained(3) by auto
    ultimately show ?thesis using drained(1) by simp
  next
    case timeout
    have "length (filter is_QueuePush ?tr) = Suc k"
      by (simp add: timeout(2) filter_push_failed_pushes filter_push_failed_polls)
    moreover have "QueuePush True \<in> set ?tr"
      by (simp add: timeout(2))
    moreover have "\<exists>k<5. \<exists>rest. ?tr =
              Farf MEDIUM ''Shutting down host link'' [] # failed_pushes k
                @ QueuePush True # rest"
      using timeout(1) timeout(2) by auto
    ultimately show ?thesis using timeout(1) by simp
  qed
  with shutdown_events_append [of host s] show ?thesis by blast
qed

text \<open>The queue holds 32 messages and the other thread takes none.\<close>

theorem shutdown_push_attempts_witness:
  "QueuePush True \<notin> set (shutdown_trace []
       \<lparr>gOutboundQueue = \<lparr>items = replicate 32 (Some \<lparr>message = []\<rparr>), shutDown = False\<rparr>,
        events = []\<rparr>)
   \<and> shutdown_trace []
       \<lparr>gOutboundQueue = \<lparr>items = replicate 32 (Some \<lparr>message = []\<rparr>), shutDown = False\<rparr>,
        events = []\<rparr>
     = [Farf MEDIUM ''Shutting down host link'' [],
        QueuePush False, TimerSleep 5000, QueuePush False, TimerSleep 5000,
        QueuePush False, TimerSleep 5000, QueuePush False, TimerSleep 5000,
        QueuePush False,
        Farf ERROR
          ''No room in outbound queue for shutdown message and host not draining queue!'' []]
   \<and> filter is_QueueEmpty (shutdown_trace []
       \<lparr>gOutboundQueue = \<lparr>items = replicate 32 (Some \<lparr>message = []\<rparr>), shutDown = False\<rparr>,
        events = []\<rparr>) = []"
proof -
  have "QueuePush True \<notin> set (shutdown_trace []
       \<lparr>gOutboundQueue = \<lparr>items = replicate 32 (Some \<lparr>message = []\<rparr>), shutDown = False\<rparr>,
        events = []\<rparr>)"
    by code_simp
  then show ?thesis
    using shutdown_push_attempts
      [of "[]" "\<lparr>gOutboundQueue = \<lparr>items = replicate 32 (Some \<lparr>message = []\<rparr>), shutDown = False\<rparr>,
       events = []\<rparr>"]
    by blast
qed

text \<open>
  C6. \<^verbatim>\<open>shutdown\<close> is a total function: both loops count down from 5 and the
  recursion is well-founded, so the call returns whatever the other thread does. It
  evaluates \<^verbatim>\<open>empty()\<close> at most 5 times. After a successful push of the sentinel it
  ends either right after a poll that found the queue empty (at most four polls with a
  sleep of 5000 microseconds each came before), or after the fifth poll that found it
  not empty, with the line that it exits anyway.
\<close>

theorem shutdown_bounded_wait:
  "events (HostLinkBase_shutdown host s) = events s @ shutdown_trace host s
   \<and> length (filter is_QueueEmpty (shutdown_trace host s)) \<le> 5
   \<and> (QueuePush True \<in> set (shutdown_trace host s) \<longrightarrow>
        (\<exists>k<5. \<exists>j<5. shutdown_trace host s =
           Farf MEDIUM ''Shutting down host link'' [] # failed_pushes k @
           [QueuePush True, Farf MEDIUM ''Draining message queue'' []] @ failed_polls j @
           [QueueEmpty True, Farf MEDIUM ''Finished draining queue'' []])
      \<or> (\<exists>k<5. shutdown_trace host s =
           Farf MEDIUM ''Shutting down host link'' [] # failed_pushes k @
           [QueuePush True, Farf MEDIUM ''Draining message queue'' []] @ failed_polls 4 @
           [QueueEmpty False,
            Farf ERROR ''Host took too long to drain outbound queue; exiting anyway'' []]))"
proof -
  let ?tr = "shutdown_trace host s"
  let ?drained = "\<exists>k<5. \<exists>j<5. ?tr =
           Farf MEDIUM ''Shutting down host link'' [] # failed_pushes k @
           [QueuePush True, Farf MEDIUM ''Draining message queue'' []] @ failed_polls j @
           [QueueEmpty True, Farf MEDIUM ''Finished draining queue'' []]"
  let ?timeout = "\<exists>k<5. ?tr =
           Farf MEDIUM ''Shutting down host link'' [] # failed_pushes k @
           [QueuePush True, Farf MEDIUM ''Draining message queue'' []] @ failed_polls 4 @
           [QueueEmpty False,
            Farf ERROR ''Host took too long to drain outbound queue; exiting anyway'' []]"
  let ?abandoned = "?tr = Farf MEDIUM ''Shutting down host link'' [] # failed_pushes 4 @
       [QueuePush False,
        Farf ERROR
          ''No room in outbound queue for shutdown message and host not draining queue!'' []]"
  have cases3: "?abandoned \<or> ?drained \<or> ?timeout"
    by (rule shutdown_cases)
  have polls: "length (filter is_QueueEmpty ?tr) \<le> 5"
  proof -
    from cases3 consider ?abandoned | ?drained | ?timeout by blast
    then show ?thesis
    proof cases
      case 1
      then show ?thesis
        by (simp add: filter_empty_failed_pushes)
    next
      case 2
      then obtain k j where "j < 5" "?tr =
           Farf MEDIUM ''Shutting down host link'' [] # failed_pushes k @
           [QueuePush True, Farf MEDIUM ''Draining message queue'' []] @ failed_polls j @
           [QueueEmpty True, Farf MEDIUM ''Finished draining queue'' []]"
        by blast
      then show ?thesis
        by (simp add: filter_empty_failed_pushes filter_empty_failed_polls)
    next
      case 3
      then obtain k where "?tr =
           Farf MEDIUM ''Shutting down host link'' [] # failed_pushes k @
           [QueuePush True, Farf MEDIUM ''Draining message queue'' []] @ failed_polls 4 @
           [QueueEmpty False,
            Farf ERROR ''Host took too long to drain outbound queue; exiting anyway'' []]"
        by blast
      then show ?thesis
        by (simp add: filter_empty_failed_pushes filter_empty_failed_polls)
    qed
  qed
  have "QueuePush True \<notin> set ?tr" if ?abandoned
    using that by (simp add: push_True_notin_failed_pushes)
  with cases3 have "QueuePush True \<in> set ?tr \<longrightarrow> ?drained \<or> ?timeout"
    by blast
  with polls shutdown_events_append [of host s] show ?thesis by blast
qed

text \<open>
  The queue is empty at the start. Once the other thread takes the sentinel before the
  first poll; once it takes nothing.
\<close>

theorem shutdown_bounded_wait_witness:
  "QueuePush True \<in> set (shutdown_trace [id, host_pops] \<lparr>gOutboundQueue = \<lparr>items = [], shutDown = False\<rparr>,
   events = []\<rparr>)
   \<and> shutdown_trace [id, host_pops] \<lparr>gOutboundQueue = \<lparr>items = [], shutDown = False\<rparr>,
    events = []\<rparr>
     = [Farf MEDIUM ''Shutting down host link'' [], QueuePush True,
        Farf MEDIUM ''Draining message queue'' [], QueueEmpty True,
        Farf MEDIUM ''Finished draining queue'' []]
   \<and> QueuePush True \<in> set (shutdown_trace [] \<lparr>gOutboundQueue = \<lparr>items = [], shutDown = False\<rparr>,
    events = []\<rparr>)
   \<and> shutdown_trace [] \<lparr>gOutboundQueue = \<lparr>items = [], shutDown = False\<rparr>,
    events = []\<rparr>
     = [Farf MEDIUM ''Shutting down host link'' [], QueuePush True,
        Farf MEDIUM ''Draining message queue'' [],
        QueueEmpty False, TimerSleep 5000, QueueEmpty False, TimerSleep 5000,
        QueueEmpty False, TimerSleep 5000, QueueEmpty False, TimerSleep 5000,
        QueueEmpty False,
        Farf ERROR ''Host took too long to drain outbound queue; exiting anyway'' []]"
proof -
  have a: "shutdown_trace [id, host_pops] \<lparr>gOutboundQueue = \<lparr>items = [], shutDown = False\<rparr>,
   events = []\<rparr>
     = [Farf MEDIUM ''Shutting down host link'' [], QueuePush True,
        Farf MEDIUM ''Draining message queue'' [], QueueEmpty True,
        Farf MEDIUM ''Finished draining queue'' []]"
    by code_simp
  have b: "shutdown_trace [] \<lparr>gOutboundQueue = \<lparr>items = [], shutDown = False\<rparr>,
   events = []\<rparr>
     = [Farf MEDIUM ''Shutting down host link'' [], QueuePush True,
        Farf MEDIUM ''Draining message queue'' [],
        QueueEmpty False, TimerSleep 5000, QueueEmpty False, TimerSleep 5000,
        QueueEmpty False, TimerSleep 5000, QueueEmpty False, TimerSleep 5000,
        QueueEmpty False,
        Farf ERROR ''Host took too long to drain outbound queue; exiting anyway'' []]"
    by code_simp
  show ?thesis
    using a b shutdown_bounded_wait [of "[id, host_pops]" "\<lparr>gOutboundQueue = \<lparr>items = [], shutDown = False\<rparr>,
     events = []\<rparr>"]
    by simp
qed

subsection \<open>Sending and inbound delivery\<close>

text \<open>
  C8. \<^verbatim>\<open>HostLink::sendMessage\<close> returns what the push on the outbound queue returns,
  which is true exactly when the message has been appended to the queue, and the state
  after it differs from the one before only in the queue, as the push left it.
\<close>

theorem sendMessage_is_push:
  "HostLink_sendMessage msg s =
     (fst (FixedSizeBlockingQueue_push kOutboundQueueSize msg (gOutboundQueue s)),
      s\<lparr>gOutboundQueue :=
           snd (FixedSizeBlockingQueue_push kOutboundQueueSize msg (gOutboundQueue s))\<rparr>)
   \<and> fst (HostLink_sendMessage msg s)
       = (items (gOutboundQueue (snd (HostLink_sendMessage msg s)))
            = items (gOutboundQueue s) @ [msg])
   \<and> shutDown (gOutboundQueue (snd (HostLink_sendMessage msg s)))
       = shutDown (gOutboundQueue s)
   \<and> events (snd (HostLink_sendMessage msg s)) = events s"
  by (simp add: HostLink_sendMessage_def FixedSizeBlockingQueue_push_def)

text \<open>
  C9. \<^verbatim>\<open>chre_slpi_deliver_message_from_host\<close> returns SUCCESS for every message and
  length, and leaves the state as it was.
\<close>

theorem deliver_message_noop:
  "chre_slpi_deliver_message_from_host msg messageLen s = (CHRE_FASTRPC_SUCCESS, s)"
  by (simp add: chre_slpi_deliver_message_from_host_def)

subsection \<open>The request manager\<close>

text \<open>
  C7. While the pending-request slot is occupied, \<^verbatim>\<open>requestCellInfo\<close> returns false
  and leaves the manager as it was: the stored instance id and cookie, and the
  platform, to which no request is issued.
\<close>

theorem requestCellInfo_rejects_when_pending:
  assumes "mCellInfoRequestingNanoappInstanceId mgr \<noteq> None"
  shows "WwanRequestManager_requestCellInfo nanoapp cookie mgr = (False, mgr)"
  using assms by (simp add: WwanRequestManager_requestCellInfo_def)

theorem requestCellInfo_rejects_when_pending_witness:
  "mCellInfoRequestingNanoappInstanceId
       \<lparr>mPlatformWwan = \<lparr>cellInfoRequests = 1, driverAnswers = [True]\<rparr>,
        mCellInfoRequestingNanoappInstanceId = Some 7,
        mCellInfoRequestingNanoappCookie = 100\<rparr> \<noteq> None
   \<and> WwanRequestManager_requestCellInfo \<lparr>instanceId = 8\<rparr> 200
        \<lparr>mPlatformWwan = \<lparr>cellInfoRequests = 1, driverAnswers = [True]\<rparr>,
         mCellInfoRequestingNanoappInstanceId = Some 7,
         mCellInfoRequestingNanoappCookie = 100\<rparr>
      = (False,
         \<lparr>mPlatformWwan = \<lparr>cellInfoRequests = 1, driverAnswers = [True]\<rparr>,
          mCellInfoRequestingNanoappInstanceId = Some 7,
          mCellInfoRequestingNanoappCookie = 100\<rparr>)"
  using requestCellInfo_rejects_when_pending
          [of "\<lparr>mPlatformWwan = \<lparr>cellInfoRequests = 1, driverAnswers = [True]\<rparr>,
                mCellInfoRequestingNanoappInstanceId = Some 7,
                mCellInfoRequestingNanoappCookie = 100\<rparr>"
              "\<lparr>instanceId = 8\<rparr>" 200]
  by simp

end
